theory Spec2Isabelle
  imports Main "HOL-Library.Sublist"
begin

section \<open>The AWS IoT topic rule construct (\<^verbatim>\<open>topic-rule.ts\<close>)\<close>

text \<open>
  The file defines the class \<^verbatim>\<open>TopicRule\<close> with its constructor and the static
  factory \<^verbatim>\<open>fromTopicRuleArn\<close>. Both run against a construct tree that they
  mutate (a new construct attaches itself to its scope), and the factory may throw.
  The embedding passes the tree explicitly and returns a thrown error as a value:
  an operation maps the tree before the call to a pair of its outcome
  (\<open>Inl\<close> the error thrown, \<open>Inr\<close> the value returned) and the tree after it.
\<close>

subsection \<open>Errors\<close>

text \<open>
  The only \<^verbatim>\<open>throw\<close> of the file is \<^verbatim>\<open>throw new Error(`...`)\<close>: JavaScript's
  generic error, carrying its message.
\<close>

datatype error = Error string

text \<open>
  What a handler can read from a thrown error: the name of its class, which is
  \<^verbatim>\<open>Error\<close> for an object made by \<^verbatim>\<open>new Error(...)\<close>, and its message.
\<close>

fun errorName :: "error \<Rightarrow> string" where
  "errorName (Error m) = ''Error''"

fun errorMessage :: "error \<Rightarrow> string" where
  "errorMessage (Error m) = m"

subsection \<open>Data of the framework that the file uses\<close>

text \<open>
  \<^verbatim>\<open>ArnFormat\<close> is imported from the core library; the file names one member of it.
\<close>

datatype ArnFormat = SLASH_RESOURCE_NAME

text \<open>
  \<^verbatim>\<open>ArnComponents\<close>, with the three fields the file reads or writes. An optional
  field (\<^verbatim>\<open>string | undefined\<close>) is an \<open>option\<close>.
\<close>

record ArnComponents =
  service :: string
  resource :: string
  resourceName :: "string option"

text \<open>
  The stack that \<^verbatim>\<open>Stack.of(scope)\<close> finds. Its method \<^verbatim>\<open>splitArn\<close> is
  dispatched on that object, so it is a field: the results about the import that do
  not depend on how an ARN is split hold for every splitter. The environment
  (partition, region, account) is what ARNs are composed from, and
  \<open>generatedName\<close> is the name the provider assigns to a resource, registered at
  a given path, that was given none.
\<close>

record Stack =
  arnPartition :: string
  region :: string
  account :: string
  splitArn :: "string \<Rightarrow> ArnFormat \<Rightarrow> ArnComponents"
  generatedName :: "string list \<Rightarrow> string"

text \<open>
  A construct is known by its path in the tree. It carries the stack it lies in,
  which \<^verbatim>\<open>Stack.of\<close> returns.
\<close>

record Construct =
  path :: "string list"
  stack :: Stack

definition Stack_of :: "Construct \<Rightarrow> Stack" where
  "Stack_of scope = stack scope"

text \<open>
  \<^verbatim>\<open>ResourceProps\<close> of the base class \<^verbatim>\<open>Resource\<close>: the two properties the file
  passes. (The field is \<^verbatim>\<open>physicalName\<close> in the source; the prefix keeps it apart
  from the attribute of the same name of \<^verbatim>\<open>Resource\<close>.)
\<close>

record ResourceProps =
  props_physicalName :: "string option"
  environmentFromArn :: "string option"

record Resource =
  node :: Construct
  physicalName :: "string option"

text \<open>
  The filter configuration: \<^verbatim>\<open>IotSql.bind(scope)\<close> returns an \<^verbatim>\<open>IotSqlConfig\<close>.
  The method belongs to the caller's object, so it is a field.
\<close>

record IotSqlConfig =
  cfg_awsIotSqlVersion :: string
  cfg_sql :: string

record IotSql =
  bind :: "Construct \<Rightarrow> IotSqlConfig"

text \<open>The properties of the generated resource class \<^verbatim>\<open>CfnTopicRule\<close>.\<close>

typedecl ActionProperty

record TopicRulePayloadProperty =
  actions :: "ActionProperty list"
  awsIotSqlVersion :: string
  sql :: string

record CfnTopicRuleProps =
  ruleName :: "string option"
  topicRulePayload :: TopicRulePayloadProperty

record CfnTopicRule =
  attrArn :: string
  ref :: string

subsection \<open>The construct tree\<close>

text \<open>
  The tree holds two kinds of nodes: a construct of the base class \<^verbatim>\<open>Resource\<close>
  (no record for the provisioning engine by itself), and a \<^verbatim>\<open>CfnTopicRule\<close>, whose
  properties are the resource record that the engine realises.
\<close>

datatype tree_node =
    ResourceNode "string list" ResourceProps
  | CfnTopicRuleNode "string list" CfnTopicRuleProps

type_synonym graph = "tree_node list"

fun resources :: "graph \<Rightarrow> (string list \<times> CfnTopicRuleProps) list" where
  "resources [] = []"
| "resources (ResourceNode p r # ns) = resources ns"
| "resources (CfnTopicRuleNode p c # ns) = (p, c) # resources ns"

subsection \<open>The framework's operations\<close>

text \<open>
  The file calls into the core library and the generated resource class, which it
  does not define. They are described as returning normally, and are total here;
  a second embedding, further down, lets each of them throw.
\<close>

text \<open>
  Modelled from the spec: the constructor of the base class \<^verbatim>\<open>Resource\<close> (core
  library, not in this file). A new construct registers itself in the tree under its
  scope with the given id and keeps the physical name it was given.
\<close>

definition Resource_new ::
  "Construct \<Rightarrow> string \<Rightarrow> ResourceProps \<Rightarrow> graph \<Rightarrow> Resource \<times> graph" where
  "Resource_new scope id' props g =
     (let this = \<lparr>path = path scope @ [id'], stack = stack scope\<rparr>
      in (\<lparr>node = this, physicalName = props_physicalName props\<rparr>,
          g @ [ResourceNode (path this) props]))"

text \<open>
  Modelled from the spec: \<^verbatim>\<open>formatArn\<close> of the core library, the composition of a
  fully qualified ARN from service, resource and resource name in the slash
  convention, \<^verbatim>\<open>arn:partition:service:region:account:resource/resourceName\<close>.
\<close>

definition formatArn :: "Stack \<Rightarrow> ArnComponents \<Rightarrow> string" where
  "formatArn st c =
     ''arn:'' @ arnPartition st @ '':'' @ service c @ '':'' @ region st @ '':'' @ account st
       @ '':'' @ resource c
       @ (case resourceName c of None \<Rightarrow> [] | Some n \<Rightarrow> ''/'' @ n)"

text \<open>
  Modelled from the spec: the constructor of the generated class \<^verbatim>\<open>CfnTopicRule\<close>,
  the registration call that accepts the typed payload and returns the attribute
  accessors. The record is registered under the scope's path; an attribute is
  represented by the string the engine resolves it to: \<^verbatim>\<open>ref\<close> by the name of the
  rule (the given one, the provider's when none was given), \<^verbatim>\<open>attrArn\<close> by the
  ARN of that rule.
\<close>

definition CfnTopicRule_new ::
  "Resource \<Rightarrow> string \<Rightarrow> CfnTopicRuleProps \<Rightarrow> graph \<Rightarrow> CfnTopicRule \<times> graph" where
  "CfnTopicRule_new scope id' props g =
     (let p = path (node scope) @ [id'];
          st = stack (node scope);
          name = (case ruleName props of Some n \<Rightarrow> n | None \<Rightarrow> generatedName st p)
      in (\<lparr>attrArn = formatArn st \<lparr>service = ''iot'', resource = ''rule'', resourceName = Some name\<rparr>,
           ref = name\<rparr>,
          g @ [CfnTopicRuleNode p props]))"

text \<open>
  Modelled from the spec: \<^verbatim>\<open>Resource.getResourceArnAttribute\<close>, the
  attribute-resolution helper that produces a fully qualified ARN from the service,
  the resource and the resource name it is given. The resource name is the physical
  name: where none was given, the one that the provider assigns to the record of the
  resource, its child \<^verbatim>\<open>Resource\<close>.
\<close>

definition getResourceArnAttribute :: "Resource \<Rightarrow> string \<Rightarrow> ArnComponents \<Rightarrow> string" where
  "getResourceArnAttribute this arnAttr arnComponents =
     formatArn (stack (node this))
       (arnComponents
          \<lparr>resourceName :=
             Some (case resourceName arnComponents of
                     None \<Rightarrow> generatedName (stack (node this)) (path (node this) @ [''Resource''])
                   | Some n \<Rightarrow> n)\<rparr>)"

text \<open>
  Modelled from the spec: \<^verbatim>\<open>Resource.getResourceNameAttribute\<close>, the name
  resolution from a raw reference.
\<close>

definition getResourceNameAttribute :: "Resource \<Rightarrow> string \<Rightarrow> string" where
  "getResourceNameAttribute this nameAttr = nameAttr"

subsection \<open>Splitting an ARN in the slash convention\<close>

text \<open>
  Modelled from the spec: the fields of an ARN, which the splitter below reads.
  \<open>afterColons n s\<close> is the text of \<open>s\<close> after its \<open>n\<close>-th colon, if it has one.
\<close>

fun afterColons :: "nat \<Rightarrow> string \<Rightarrow> string option" where
  "afterColons 0 s = Some s"
| "afterColons (Suc n) [] = None"
| "afterColons (Suc n) (c # s) =
     (if c = CHR '':'' then afterColons n s else afterColons (Suc n) s)"

text \<open>
  Modelled from the spec: \<^verbatim>\<open>Stack.splitArn\<close> of the core library for the "slash
  resource name" convention. The identifier is
  \<^verbatim>\<open>arn:partition:service:region:account:resource/resourceName\<close>: the resource part
  is what follows the fifth colon, the resource type is its text before the first
  slash, and the resource name is its text after that slash, absent when the
  resource part has no slash (or the identifier no resource part).
\<close>

definition Arn_split :: "string \<Rightarrow> ArnFormat \<Rightarrow> ArnComponents" where
  "Arn_split arn arnFormat =
     (case afterColons 5 arn of
        None \<Rightarrow>
          \<lparr>service = (case afterColons 2 arn of
                        None \<Rightarrow> []
                      | Some s \<Rightarrow> takeWhile (\<lambda>c. c \<noteq> CHR '':'') s),
           resource = [], resourceName = None\<rparr>
      | Some rp \<Rightarrow>
          \<lparr>service = (case afterColons 2 arn of
                        None \<Rightarrow> []
                      | Some s \<Rightarrow> takeWhile (\<lambda>c. c \<noteq> CHR '':'') s),
           resource = takeWhile (\<lambda>c. c \<noteq> CHR ''/'') rp,
           resourceName =
             (if CHR ''/'' \<in> set rp
              then Some (tl (dropWhile (\<lambda>c. c \<noteq> CHR ''/'') rp))
              else None)\<rparr>)"

subsection \<open>The class \<^verbatim>\<open>TopicRule\<close>\<close>

text \<open>
  \<^verbatim>\<open>TopicRuleProps\<close> and the interface \<^verbatim>\<open>ITopicRule\<close>. (The fields of the
  properties are \<^verbatim>\<open>topicRuleName\<close> and \<^verbatim>\<open>sql\<close> in the source; the prefix keeps them
  apart from the attribute and from the payload's field.)
\<close>

record TopicRuleProps =
  props_topicRuleName :: "string option"
  props_sql :: IotSql

record ITopicRule =
  topicRuleArn :: string
  topicRuleName :: string

text \<open>
  \<^verbatim>\<open>fromTopicRuleArn\<close>. The test \<^verbatim>\<open>!parts.resourceName\<close> holds of \<^verbatim>\<open>undefined\<close>
  and of the empty string. The class \<^verbatim>\<open>Import\<close> extends \<^verbatim>\<open>Resource\<close> and adds the
  two read-only fields; it is instantiated after the test.
\<close>

definition fromTopicRuleArn ::
  "Construct \<Rightarrow> string \<Rightarrow> string \<Rightarrow> graph \<Rightarrow> (error + ITopicRule) \<times> graph" where
  "fromTopicRuleArn scope id' arn g =
     (let parts = splitArn (Stack_of scope) arn SLASH_RESOURCE_NAME;
          missing = Error (''Missing topic rule name in ARN: '' @ [CHR 0x27] @ arn @ [CHR 0x27])
      in case resourceName parts of
           None \<Rightarrow> (Inl missing, g)
         | Some name \<Rightarrow>
             if name = [] then (Inl missing, g)
             else (case Resource_new scope id'
                          \<lparr>props_physicalName = None, environmentFromArn = Some arn\<rparr> g of
                     (import, g') \<Rightarrow>
                       (Inr \<lparr>topicRuleArn = arn, topicRuleName = name\<rparr>, g')))"

text \<open>
  The constructor: the call of \<^verbatim>\<open>super\<close>, the binding of the filter configuration,
  the registration of the \<^verbatim>\<open>CfnTopicRule\<close> under the id \<^verbatim>\<open>Resource\<close>, and the two
  attributes. Its body has no \<^verbatim>\<open>throw\<close>.
\<close>

definition TopicRule_new ::
  "Construct \<Rightarrow> string \<Rightarrow> TopicRuleProps \<Rightarrow> graph \<Rightarrow> (error + ITopicRule) \<times> graph" where
  "TopicRule_new scope id' props g =
     (case Resource_new scope id'
             \<lparr>props_physicalName = props_topicRuleName props, environmentFromArn = None\<rparr> g of
        (this, g1) \<Rightarrow>
          let sqlConfig = bind (props_sql props) (node this)
          in case CfnTopicRule_new this ''Resource''
                    \<lparr>ruleName = physicalName this,
                     topicRulePayload =
                       \<lparr>actions = [],
                        awsIotSqlVersion = cfg_awsIotSqlVersion sqlConfig,
                        sql = cfg_sql sqlConfig\<rparr>\<rparr> g1 of
               (cfn, g2) \<Rightarrow>
                 (Inr \<lparr>topicRuleArn =
                         getResourceArnAttribute this (attrArn cfn)
                           \<lparr>service = ''iot'', resource = ''rule'',
                            resourceName = physicalName this\<rparr>,
                       topicRuleName = getResourceNameAttribute this (ref cfn)\<rparr>,
                  g2))"

subsection \<open>The operations with framework calls that may throw\<close>

text \<open>
  Any call that the file makes into the framework may throw, and the file catches
  nothing. To tell the errors that the file raises itself from those, the two
  operations are written a second time over a framework whose operations return
  normally or throw a value of some type \<open>'x\<close>. A failure is then either
  \<open>Thrown\<close>, by a \<^verbatim>\<open>throw\<close> statement of the file, or \<open>Propagated\<close> from a call.
\<close>

datatype 'x failure = Thrown error | Propagated 'x

record 'x Framework =
  fw_Stack_of :: "Construct \<Rightarrow> 'x + Stack"
  fw_splitArn :: "Stack \<Rightarrow> string \<Rightarrow> ArnFormat \<Rightarrow> 'x + ArnComponents"
  fw_Resource_new :: "Construct \<Rightarrow> string \<Rightarrow> ResourceProps \<Rightarrow> graph \<Rightarrow> ('x + Resource) \<times> graph"
  fw_bind :: "IotSql \<Rightarrow> Construct \<Rightarrow> 'x + IotSqlConfig"
  fw_CfnTopicRule_new ::
    "Resource \<Rightarrow> string \<Rightarrow> CfnTopicRuleProps \<Rightarrow> graph \<Rightarrow> ('x + CfnTopicRule) \<times> graph"
  fw_getResourceArnAttribute :: "Resource \<Rightarrow> string \<Rightarrow> ArnComponents \<Rightarrow> 'x + string"
  fw_getResourceNameAttribute :: "Resource \<Rightarrow> string \<Rightarrow> 'x + string"

text \<open>\<^verbatim>\<open>fromTopicRuleArn\<close>, lines 55 to 69, with calls that may throw.\<close>

definition fromTopicRuleArn_fw ::
  "'x Framework \<Rightarrow> Construct \<Rightarrow> string \<Rightarrow> string \<Rightarrow> graph
     \<Rightarrow> ('x failure + ITopicRule) \<times> graph" where
  "fromTopicRuleArn_fw fw scope id' arn g =
     (case fw_Stack_of fw scope of
        Inl x \<Rightarrow> (Inl (Propagated x), g)
      | Inr st \<Rightarrow>
          (case fw_splitArn fw st arn SLASH_RESOURCE_NAME of
             Inl x \<Rightarrow> (Inl (Propagated x), g)
           | Inr parts \<Rightarrow>
               (let missing =
                      Error (''Missing topic rule name in ARN: '' @ [CHR 0x27] @ arn @ [CHR 0x27])
                in case resourceName parts of
                     None \<Rightarrow> (Inl (Thrown missing), g)
                   | Some name \<Rightarrow>
                       if name = [] then (Inl (Thrown missing), g)
                       else (case fw_Resource_new fw scope id'
                                    \<lparr>props_physicalName = None,
                                     environmentFromArn = Some arn\<rparr> g of
                               (Inl x, g') \<Rightarrow> (Inl (Propagated x), g')
                             | (Inr import, g') \<Rightarrow>
                                 (Inr \<lparr>topicRuleArn = arn, topicRuleName = name\<rparr>, g')))))"

text \<open>The constructor, lines 83 to 105, with calls that may throw.\<close>

definition TopicRule_new_fw ::
  "'x Framework \<Rightarrow> Construct \<Rightarrow> string \<Rightarrow> TopicRuleProps \<Rightarrow> graph
     \<Rightarrow> ('x failure + ITopicRule) \<times> graph" where
  "TopicRule_new_fw fw scope id' props g =
     (case fw_Resource_new fw scope id'
             \<lparr>props_physicalName = props_topicRuleName props, environmentFromArn = None\<rparr> g of
        (Inl x, g1) \<Rightarrow> (Inl (Propagated x), g1)
      | (Inr this, g1) \<Rightarrow>
          (case fw_bind fw (props_sql props) (node this) of
             Inl x \<Rightarrow> (Inl (Propagated x), g1)
           | Inr sqlConfig \<Rightarrow>
               (case fw_CfnTopicRule_new fw this ''Resource''
                       \<lparr>ruleName = physicalName this,
                        topicRulePayload =
                          \<lparr>actions = [],
                           awsIotSqlVersion = cfg_awsIotSqlVersion sqlConfig,
                           sql = cfg_sql sqlConfig\<rparr>\<rparr> g1 of
                  (Inl x, g2) \<Rightarrow> (Inl (Propagated x), g2)
                | (Inr cfn, g2) \<Rightarrow>
                    (case fw_getResourceArnAttribute fw this (attrArn cfn)
                            \<lparr>service = ''iot'', resource = ''rule'',
                             resourceName = physicalName this\<rparr> of
                       Inl x \<Rightarrow> (Inl (Propagated x), g2)
                     | Inr arn \<Rightarrow>
                         (case fw_getResourceNameAttribute fw this (ref cfn) of
                            Inl x \<Rightarrow> (Inl (Propagated x), g2)
                          | Inr name \<Rightarrow>
                              (Inr \<lparr>topicRuleArn = arn, topicRuleName = name\<rparr>, g2))))))"

text \<open>The framework of the sections above, in which every call returns normally.\<close>

definition modelFramework :: "'x Framework" where
  "modelFramework =
     \<lparr>fw_Stack_of = (\<lambda>scope. Inr (Stack_of scope)),
      fw_splitArn = (\<lambda>st arn arnFormat. Inr (splitArn st arn arnFormat)),
      fw_Resource_new =
        (\<lambda>scope id' props g.
           (Inr (fst (Resource_new scope id' props g)), snd (Resource_new scope id' props g))),
      fw_bind = (\<lambda>s scope. Inr (bind s scope)),
      fw_CfnTopicRule_new =
        (\<lambda>scope id' props g.
           (Inr (fst (CfnTopicRule_new scope id' props g)),
            snd (CfnTopicRule_new scope id' props g))),
      fw_getResourceArnAttribute =
        (\<lambda>this arnAttr arnComponents.
           Inr (getResourceArnAttribute this arnAttr arnComponents)),
      fw_getResourceNameAttribute =
        (\<lambda>this nameAttr. Inr (getResourceNameAttribute this nameAttr))\<rparr>"

subsection \<open>The invariant of a rule identity\<close>



subsection \<open>A concrete stack, scope and filter configuration\<close>

definition exampleStack :: Stack where
  "exampleStack =
     \<lparr>arnPartition = ''aws'', region = ''us-east-2'', account = ''123456789012'',
      splitArn = Arn_split, generatedName = concat\<rparr>"

definition exampleScope :: Construct where
  "exampleScope = \<lparr>path = [''App''], stack = exampleStack\<rparr>"

definition exampleSql :: IotSql where
  "exampleSql =
     \<lparr>bind = (\<lambda>scope. \<lparr>cfg_awsIotSqlVersion = ''2016-03-23'',
                          cfg_sql = ''SELECT temperature FROM sensors''\<rparr>)\<rparr>"

section \<open>Auxiliary facts\<close>

lemma afterColons_append:
  "count_list p CHR '':'' = n \<Longrightarrow> afterColons (Suc n) (p @ CHR '':'' # s) = Some s"
proof (induction p arbitrary: n)
  case Nil
  then show ?case by simp
next
  case (Cons c p)
  then show ?case by (cases "c = CHR '':''") auto
qed


lemma resources_append: "resources (g @ h) = resources g @ resources h"
  by (induction g rule: resources.induct) auto

lemma Arn_split_rule:
  assumes "count_list pre CHR '':'' = 4"
  shows "resourceName (Arn_split (pre @ '':rule/'' @ name) fmt) = Some name"
proof -
  have "afterColons 5 (pre @ CHR '':'' # (''rule/'' @ name)) = Some (''rule/'' @ name)"
    using afterColons_append [OF assms, of "''rule/'' @ name"] by (simp add: eval_nat_numeral)
  then show ?thesis by (simp add: Arn_split_def)
qed

text \<open>The three outcomes of the import, by what the split yields.\<close>

lemma fromTopicRuleArn_None:
  "resourceName (splitArn (Stack_of scope) arn SLASH_RESOURCE_NAME) = None \<Longrightarrow>
     fromTopicRuleArn scope id' arn g =
       (Inl (Error (''Missing topic rule name in ARN: '' @ [CHR 0x27] @ arn @ [CHR 0x27])), g)"
  by (simp add: fromTopicRuleArn_def)

lemma fromTopicRuleArn_empty:
  "resourceName (splitArn (Stack_of scope) arn SLASH_RESOURCE_NAME) = Some [] \<Longrightarrow>
     fromTopicRuleArn scope id' arn g =
       (Inl (Error (''Missing topic rule name in ARN: '' @ [CHR 0x27] @ arn @ [CHR 0x27])), g)"
  by (simp add: fromTopicRuleArn_def)

lemma fromTopicRuleArn_Some:
  "resourceName (splitArn (Stack_of scope) arn SLASH_RESOURCE_NAME) = Some name \<Longrightarrow>
   name \<noteq> [] \<Longrightarrow>
     fromTopicRuleArn scope id' arn g =
       (Inr \<lparr>topicRuleArn = arn, topicRuleName = name\<rparr>,
        g @ [ResourceNode (path scope @ [id'])
               \<lparr>props_physicalName = None, environmentFromArn = Some arn\<rparr>])"
  by (simp add: fromTopicRuleArn_def Resource_new_def)

lemma fromTopicRuleArn_cases:
  obtains (missing) "resourceName (splitArn (Stack_of scope) arn SLASH_RESOURCE_NAME) = None"
  | (empty) "resourceName (splitArn (Stack_of scope) arn SLASH_RESOURCE_NAME) = Some []"
  | (named) name where
      "resourceName (splitArn (Stack_of scope) arn SLASH_RESOURCE_NAME) = Some name"
      "name \<noteq> []"
  by (cases "resourceName (splitArn (Stack_of scope) arn SLASH_RESOURCE_NAME)") auto

text \<open>The split of the three identifiers used below, by the slash convention.\<close>

lemma example_split_rule:
  "resourceName (splitArn (Stack_of exampleScope) ''arn:aws:iot:us-east-2:123456789012:rule''
      SLASH_RESOURCE_NAME) = None"
  by (simp add: Stack_of_def exampleScope_def exampleStack_def Arn_split_def eval_nat_numeral)

lemma example_split_rule_slash:
  "resourceName (splitArn (Stack_of exampleScope) ''arn:aws:iot:us-east-2:123456789012:rule/''
      SLASH_RESOURCE_NAME) = Some []"
  by (simp add: Stack_of_def exampleScope_def exampleStack_def Arn_split_def eval_nat_numeral)

lemma example_split_MyRule:
  "resourceName (splitArn (Stack_of exampleScope)
      ''arn:aws:iot:us-east-2:123456789012:rule/MyRule'' SLASH_RESOURCE_NAME) = Some ''MyRule''"
  by (simp add: Stack_of_def exampleScope_def exampleStack_def Arn_split_def eval_nat_numeral)

lemma example_split_MyThing:
  "resourceName (splitArn (Stack_of exampleScope)
      ''arn:aws:iot:us-east-2:123456789012:thing/MyThing'' SLASH_RESOURCE_NAME) = Some ''MyThing''"
  by (simp add: Stack_of_def exampleScope_def exampleStack_def Arn_split_def eval_nat_numeral)

text \<open>The constructor, evaluated: the identity it returns and the two nodes it registers.\<close>

lemma TopicRule_new_eq:
  "TopicRule_new scope id' props g =
     (Inr \<lparr>topicRuleArn =
             formatArn (stack scope)
               \<lparr>service = ''iot'', resource = ''rule'',
                resourceName = Some (case props_topicRuleName props of
        Some n \<Rightarrow> n
      | None \<Rightarrow> generatedName (stack scope) (path scope @ [id', ''Resource'']))\<rparr>,
           topicRuleName = (case props_topicRuleName props of
        Some n \<Rightarrow> n
      | None \<Rightarrow> generatedName (stack scope) (path scope @ [id', ''Resource'']))\<rparr>,
      g @ [ResourceNode (path scope @ [id'])
             \<lparr>props_physicalName = props_topicRuleName props, environmentFromArn = None\<rparr>,
           CfnTopicRuleNode (path scope @ [id', ''Resource''])
             \<lparr>ruleName = props_topicRuleName props,
              topicRulePayload =
                \<lparr>actions = [],
                 awsIotSqlVersion =
                   cfg_awsIotSqlVersion
                     (bind (props_sql props) \<lparr>path = path scope @ [id'], stack = stack scope\<rparr>),
                 sql =
                   cfg_sql
                     (bind (props_sql props) \<lparr>path = path scope @ [id'], stack = stack scope\<rparr>)\<rparr>\<rparr>])"
  by (simp add: TopicRule_new_def Resource_new_def CfnTopicRule_new_def
      getResourceArnAttribute_def getResourceNameAttribute_def Let_def split: option.splits)

lemma formatArn_rule_suffix:
  "suffix (''rule/'' @ n)
     (formatArn st \<lparr>service = ''iot'', resource = ''rule'', resourceName = Some n\<rparr>)"
  by (simp add: formatArn_def suffix_def)


lemma Arn_split_no_slash:
  assumes "afterColons 5 arn = Some rp" and "CHR ''/'' \<notin> set rp"
  shows "resourceName (Arn_split arn fmt) = None"
  using assms by (simp add: Arn_split_def)


text \<open>The import in both embeddings, whatever the tree and the id.\<close>

lemma fromTopicRuleArn_fst:
  "fst (fromTopicRuleArn scope id' arn g) =
     (case resourceName (splitArn (Stack_of scope) arn SLASH_RESOURCE_NAME) of
        None \<Rightarrow>
          Inl (Error (''Missing topic rule name in ARN: '' @ [CHR 0x27] @ arn @ [CHR 0x27]))
      | Some name \<Rightarrow>
          if name = []
          then Inl (Error (''Missing topic rule name in ARN: '' @ [CHR 0x27] @ arn @ [CHR 0x27]))
          else Inr \<lparr>topicRuleArn = arn, topicRuleName = name\<rparr>)"
  by (simp add: fromTopicRuleArn_def Resource_new_def split: option.splits)

lemma fromTopicRuleArn_fw_model:
  "fromTopicRuleArn_fw modelFramework scope id' arn g =
     (map_sum Thrown (\<lambda>r. r) (fst (fromTopicRuleArn scope id' arn g)),
      snd (fromTopicRuleArn scope id' arn g))"
  by (simp add: fromTopicRuleArn_fw_def fromTopicRuleArn_def modelFramework_def Let_def
      split: option.splits prod.splits)

lemma TopicRule_new_fw_model:
  "TopicRule_new_fw modelFramework scope id' props g =
     (map_sum Thrown (\<lambda>r. r) (fst (TopicRule_new scope id' props g)),
      snd (TopicRule_new scope id' props g))"
  by (simp add: TopicRule_new_fw_def TopicRule_new_def modelFramework_def Let_def
      split: prod.splits)


section \<open>Properties of the import\<close>

text \<open>
  C1, as stated, fails twice. The error that the import throws is an object of the
  class \<^verbatim>\<open>Error\<close>, not of a class \<^verbatim>\<open>ValidationError\<close>, and its message is
  \<^verbatim>\<open>Missing topic rule name in ARN: '<identifier>'\<close>, not
  \<^verbatim>\<open>missing resource name in ARN\<close>. And the test is on the resource name alone:
  \<^verbatim>\<open>arn:aws:iot:us-east-2:123456789012:thing/MyThing\<close> contains no \<^verbatim>\<open>rule/\<close>, so it
  has no segment after that separator, and it is imported.
\<close>

theorem fromTopicRuleArn_error_is_generic:
  "fst (fromTopicRuleArn exampleScope ''Imported''
          ''arn:aws:iot:us-east-2:123456789012:rule'' []) =
     Inl (Error (''Missing topic rule name in ARN: '' @ [CHR 0x27]
                 @ ''arn:aws:iot:us-east-2:123456789012:rule'' @ [CHR 0x27]))
   \<and> errorName (Error (''Missing topic rule name in ARN: '' @ [CHR 0x27]
                 @ ''arn:aws:iot:us-east-2:123456789012:rule'' @ [CHR 0x27])) \<noteq> ''ValidationError''
   \<and> errorMessage (Error (''Missing topic rule name in ARN: '' @ [CHR 0x27]
                 @ ''arn:aws:iot:us-east-2:123456789012:rule'' @ [CHR 0x27]))
         \<noteq> ''missing resource name in ARN''
   \<and> \<not> sublist ''resource name''
         (errorMessage (Error (''Missing topic rule name in ARN: '' @ [CHR 0x27]
                 @ ''arn:aws:iot:us-east-2:123456789012:rule'' @ [CHR 0x27])))
   \<and> \<not> sublist ''rule/'' ''arn:aws:iot:us-east-2:123456789012:thing/MyThing''
   \<and> fst (fromTopicRuleArn exampleScope ''Imported''
          ''arn:aws:iot:us-east-2:123456789012:thing/MyThing'' []) =
       Inr \<lparr>topicRuleArn = ''arn:aws:iot:us-east-2:123456789012:thing/MyThing'',
            topicRuleName = ''MyThing''\<rparr>"
proof (intro conjI)
  show "fst (fromTopicRuleArn exampleScope ''Imported''
          ''arn:aws:iot:us-east-2:123456789012:rule'' []) =
     Inl (Error (''Missing topic rule name in ARN: '' @ [CHR 0x27]
                 @ ''arn:aws:iot:us-east-2:123456789012:rule'' @ [CHR 0x27]))"
    using fromTopicRuleArn_None [OF example_split_rule, of "''Imported''" "[]"] by simp
  show "fst (fromTopicRuleArn exampleScope ''Imported''
          ''arn:aws:iot:us-east-2:123456789012:thing/MyThing'' []) =
       Inr \<lparr>topicRuleArn = ''arn:aws:iot:us-east-2:123456789012:thing/MyThing'',
            topicRuleName = ''MyThing''\<rparr>"
    using fromTopicRuleArn_Some [OF example_split_MyThing, of "''Imported''" "[]"] by simp
qed (simp_all add: sublist_code)

text \<open>
  C1, amended. For every identifier from which the split of the stack extracts no
  resource name, the import throws the error of class \<^verbatim>\<open>Error\<close> whose message is
  \<^verbatim>\<open>Missing topic rule name in ARN: '<identifier>'\<close>. With the split of the slash
  convention, these are, among others, all identifiers whose resource part (the
  text after the fifth colon) has no slash, such as
  \<^verbatim>\<open>arn:aws:iot:us-east-2:123456789012:rule\<close>.
\<close>

theorem fromTopicRuleArn_missing_name:
  "(resourceName (splitArn (Stack_of scope) arn SLASH_RESOURCE_NAME) = None \<longrightarrow>
      fst (fromTopicRuleArn scope id' arn g) =
        Inl (Error (''Missing topic rule name in ARN: '' @ [CHR 0x27] @ arn @ [CHR 0x27]))
      \<and> errorName (projl (fst (fromTopicRuleArn scope id' arn g))) = ''Error'')
   \<and> (splitArn (Stack_of scope) = Arn_split \<longrightarrow> afterColons 5 arn = Some rp \<longrightarrow>
      CHR ''/'' \<notin> set rp \<longrightarrow>
        fst (fromTopicRuleArn scope id' arn g) =
          Inl (Error (''Missing topic rule name in ARN: '' @ [CHR 0x27] @ arn @ [CHR 0x27]))
        \<and> errorName (projl (fst (fromTopicRuleArn scope id' arn g))) = ''Error'')"
proof (intro conjI impI)
  assume "resourceName (splitArn (Stack_of scope) arn SLASH_RESOURCE_NAME) = None"
  then have e: "fst (fromTopicRuleArn scope id' arn g) =
        Inl (Error (''Missing topic rule name in ARN: '' @ [CHR 0x27] @ arn @ [CHR 0x27]))"
    by (simp add: fromTopicRuleArn_fst)
  show "fst (fromTopicRuleArn scope id' arn g) =
        Inl (Error (''Missing topic rule name in ARN: '' @ [CHR 0x27] @ arn @ [CHR 0x27]))"
    by (rule e)
  show "errorName (projl (fst (fromTopicRuleArn scope id' arn g))) = ''Error''"
    by (simp add: e)
next
  assume "splitArn (Stack_of scope) = Arn_split" and "afterColons 5 arn = Some rp"
    and "CHR ''/'' \<notin> set rp"
  then have "resourceName (splitArn (Stack_of scope) arn SLASH_RESOURCE_NAME) = None"
    by (simp add: Arn_split_no_slash)
  then have e: "fst (fromTopicRuleArn scope id' arn g) =
        Inl (Error (''Missing topic rule name in ARN: '' @ [CHR 0x27] @ arn @ [CHR 0x27]))"
    by (simp add: fromTopicRuleArn_fst)
  show "fst (fromTopicRuleArn scope id' arn g) =
        Inl (Error (''Missing topic rule name in ARN: '' @ [CHR 0x27] @ arn @ [CHR 0x27]))"
    by (rule e)
  show "errorName (projl (fst (fromTopicRuleArn scope id' arn g))) = ''Error''"
    by (simp add: e)
qed

theorem fromTopicRuleArn_missing_name_witness:
  "resourceName (splitArn (Stack_of exampleScope) ''arn:aws:iot:us-east-2:123456789012:rule''
      SLASH_RESOURCE_NAME) = None
   \<and> splitArn (Stack_of exampleScope) = Arn_split
   \<and> afterColons 5 ''arn:aws:iot:us-east-2:123456789012:rule'' = Some ''rule''
   \<and> CHR ''/'' \<notin> set ''rule''
   \<and> fst (fromTopicRuleArn exampleScope ''Imported'' ''arn:aws:iot:us-east-2:123456789012:rule'' []) =
       Inl (Error (''Missing topic rule name in ARN: '' @ [CHR 0x27]
                   @ ''arn:aws:iot:us-east-2:123456789012:rule'' @ [CHR 0x27]))
   \<and> errorName (projl (fst (fromTopicRuleArn exampleScope ''Imported''
        ''arn:aws:iot:us-east-2:123456789012:rule'' []))) = ''Error''"
proof -
  have s: "splitArn (Stack_of exampleScope) = Arn_split"
    by (simp add: Stack_of_def exampleScope_def exampleStack_def)
  have a: "afterColons 5 ''arn:aws:iot:us-east-2:123456789012:rule'' = Some ''rule''"
    by (simp add: eval_nat_numeral)
  have n: "CHR ''/'' \<notin> set ''rule''"
    by simp
  from fromTopicRuleArn_missing_name
         [of exampleScope "''arn:aws:iot:us-east-2:123456789012:rule''" "''Imported''" "[]"
             "''rule''"]
       example_split_rule s a n
  show ?thesis by simp
qed

text \<open>
  C10. When the split yields the empty string as resource name (as for
  \<^verbatim>\<open>arn:aws:iot:us-east-2:123456789012:rule/\<close>, which has an empty segment after
  the slash), \<^verbatim>\<open>fromTopicRuleArn\<close> throws the error it throws when the name is
  absent: the test \<^verbatim>\<open>!parts.resourceName\<close> holds of the empty string too.
\<close>

theorem fromTopicRuleArn_empty_name:
  assumes "resourceName (splitArn (Stack_of scope) arn SLASH_RESOURCE_NAME) = Some []"
  shows "fst (fromTopicRuleArn scope id' arn g) =
           Inl (Error (''Missing topic rule name in ARN: '' @ [CHR 0x27] @ arn @ [CHR 0x27]))"
  using assms by (simp add: fromTopicRuleArn_def)

theorem fromTopicRuleArn_empty_name_witness:
  "resourceName (splitArn (Stack_of exampleScope) ''arn:aws:iot:us-east-2:123456789012:rule/''
      SLASH_RESOURCE_NAME) = Some []
   \<and> fst (fromTopicRuleArn exampleScope ''Imported'' ''arn:aws:iot:us-east-2:123456789012:rule/'' []) =
       Inl (Error (''Missing topic rule name in ARN: '' @ [CHR 0x27]
                   @ ''arn:aws:iot:us-east-2:123456789012:rule/'' @ [CHR 0x27]))"
  using example_split_rule_slash
    fromTopicRuleArn_empty_name [OF example_split_rule_slash, of "''Imported''" "[]"]
  by simp

text \<open>
  C2. With the splitter of the slash convention, an identifier
  \<^verbatim>\<open>prefix:rule/<name>\<close> whose prefix is
  \<^verbatim>\<open>arn:partition:service:region:account\<close> (it starts with \<^verbatim>\<open>arn:\<close> and has four
  colons) and whose name is not empty is imported with that name, and with the
  identifier itself, unchanged, as ARN.
\<close>

theorem fromTopicRuleArn_roundtrip:
  assumes "splitArn (Stack_of scope) = Arn_split"
    and "take 4 pre = ''arn:''"
    and "count_list pre CHR '':'' = 4"
    and "name \<noteq> []"
  shows "fst (fromTopicRuleArn scope id' (pre @ '':rule/'' @ name) g) =
           Inr \<lparr>topicRuleArn = pre @ '':rule/'' @ name, topicRuleName = name\<rparr>"
proof -
  have "resourceName (splitArn (Stack_of scope) (pre @ '':rule/'' @ name) SLASH_RESOURCE_NAME)
          = Some name"
    using assms(1) Arn_split_rule [OF assms(3)] by simp
  from fromTopicRuleArn_Some [OF this assms(4)] show ?thesis by simp
qed

theorem fromTopicRuleArn_roundtrip_witness:
  "fst (fromTopicRuleArn exampleScope ''Imported''
          ''arn:aws:iot:us-east-2:123456789012:rule/MyRule'' []) =
     Inr \<lparr>topicRuleArn = ''arn:aws:iot:us-east-2:123456789012:rule/MyRule'',
          topicRuleName = ''MyRule''\<rparr>"
proof -
  have s: "splitArn (Stack_of exampleScope) = Arn_split"
    by (simp add: Stack_of_def exampleScope_def exampleStack_def)
  have a: "take 4 ''arn:aws:iot:us-east-2:123456789012'' = ''arn:''"
    by (simp add: eval_nat_numeral)
  have c: "count_list ''arn:aws:iot:us-east-2:123456789012'' CHR '':'' = 4"
    by simp
  have n: "''MyRule'' \<noteq> []"
    by simp
  from fromTopicRuleArn_roundtrip [OF s a c n, of "''Imported''" "[]"]
  show ?thesis by simp
qed

text \<open>
  C7, as stated, fails: the import has a side effect. The \<^verbatim>\<open>Import\<close> that it
  instantiates is a construct, which registers itself under the scope, so the tree
  after a successful import is not the tree before it.
\<close>

theorem fromTopicRuleArn_changes_tree:
  "fst (fromTopicRuleArn exampleScope ''Imported''
          ''arn:aws:iot:us-east-2:123456789012:rule/MyRule'' []) =
     Inr \<lparr>topicRuleArn = ''arn:aws:iot:us-east-2:123456789012:rule/MyRule'',
          topicRuleName = ''MyRule''\<rparr>
   \<and> snd (fromTopicRuleArn exampleScope ''Imported''
          ''arn:aws:iot:us-east-2:123456789012:rule/MyRule'' []) \<noteq> []"
  using fromTopicRuleArn_Some [OF example_split_MyRule, of "''Imported''" "[]"] by simp

text \<open>
  C7, amended. A successful import returns the identity that holds the identifier
  as ARN and the resource name that the split extracted, and it adds no resource
  record for the provisioning engine. Its one effect on the tree is that the
  \<^verbatim>\<open>Import\<close>, a construct of the base class \<^verbatim>\<open>Resource\<close>, is registered under the
  scope with the given id.
\<close>

theorem fromTopicRuleArn_frame:
  assumes "fst (fromTopicRuleArn scope id' arn g) = Inr r"
  shows "topicRuleArn r = arn
       \<and> resourceName (splitArn (Stack_of scope) arn SLASH_RESOURCE_NAME) = Some (topicRuleName r)
       \<and> resources (snd (fromTopicRuleArn scope id' arn g)) = resources g
       \<and> snd (fromTopicRuleArn scope id' arn g) =
           g @ [ResourceNode (path scope @ [id'])
                  \<lparr>props_physicalName = None, environmentFromArn = Some arn\<rparr>]"
proof (cases rule: fromTopicRuleArn_cases [of scope arn])
  case missing
  from fromTopicRuleArn_None [OF this, of id' g] assms show ?thesis by simp
next
  case empty
  from fromTopicRuleArn_empty [OF this, of id' g] assms show ?thesis by simp
next
  case (named name)
  from fromTopicRuleArn_Some [OF named, of id' g] assms named(1) show ?thesis
    by (auto simp: resources_append)
qed

theorem fromTopicRuleArn_frame_witness:
  "fst (fromTopicRuleArn exampleScope ''Imported''
          ''arn:aws:iot:us-east-2:123456789012:rule/MyRule'' []) =
     Inr \<lparr>topicRuleArn = ''arn:aws:iot:us-east-2:123456789012:rule/MyRule'',
          topicRuleName = ''MyRule''\<rparr>
   \<and> resources (snd (fromTopicRuleArn exampleScope ''Imported''
          ''arn:aws:iot:us-east-2:123456789012:rule/MyRule'' [])) = []
   \<and> snd (fromTopicRuleArn exampleScope ''Imported''
          ''arn:aws:iot:us-east-2:123456789012:rule/MyRule'' []) =
       [ResourceNode [''App'', ''Imported'']
          \<lparr>props_physicalName = None,
           environmentFromArn = Some ''arn:aws:iot:us-east-2:123456789012:rule/MyRule''\<rparr>]"
proof -
  have h: "fst (fromTopicRuleArn exampleScope ''Imported''
                  ''arn:aws:iot:us-east-2:123456789012:rule/MyRule'' []) =
             Inr \<lparr>topicRuleArn = ''arn:aws:iot:us-east-2:123456789012:rule/MyRule'',
                  topicRuleName = ''MyRule''\<rparr>"
    using fromTopicRuleArn_Some [OF example_split_MyRule, of "''Imported''" "[]"] by simp
  from fromTopicRuleArn_frame [OF h] h show ?thesis
    by (simp add: exampleScope_def)
qed

text \<open>
  C9. When the import throws, the tree is as it was: the \<^verbatim>\<open>throw\<close> precedes the
  instantiation of \<^verbatim>\<open>Import\<close>, so no construct has been registered.
\<close>

theorem fromTopicRuleArn_error_atomic:
  assumes "fst (fromTopicRuleArn scope id' arn g) = Inl e"
  shows "snd (fromTopicRuleArn scope id' arn g) = g"
proof (cases rule: fromTopicRuleArn_cases [of scope arn])
  case missing
  from fromTopicRuleArn_None [OF this, of id' g] show ?thesis by simp
next
  case empty
  from fromTopicRuleArn_empty [OF this, of id' g] show ?thesis by simp
next
  case (named name)
  from fromTopicRuleArn_Some [OF named, of id' g] assms show ?thesis by simp
qed

theorem fromTopicRuleArn_error_atomic_witness:
  "fst (fromTopicRuleArn exampleScope ''Imported''
          ''arn:aws:iot:us-east-2:123456789012:rule''
          [ResourceNode [''App'', ''Other''] \<lparr>props_physicalName = None, environmentFromArn = None\<rparr>]) =
     Inl (Error (''Missing topic rule name in ARN: '' @ [CHR 0x27]
                 @ ''arn:aws:iot:us-east-2:123456789012:rule'' @ [CHR 0x27]))
   \<and> snd (fromTopicRuleArn exampleScope ''Imported''
          ''arn:aws:iot:us-east-2:123456789012:rule''
          [ResourceNode [''App'', ''Other''] \<lparr>props_physicalName = None, environmentFromArn = None\<rparr>]) =
       [ResourceNode [''App'', ''Other''] \<lparr>props_physicalName = None, environmentFromArn = None\<rparr>]"
proof -
  let ?g = "[ResourceNode [''App'', ''Other'']
               \<lparr>props_physicalName = None, environmentFromArn = None\<rparr>]"
  have h: "fst (fromTopicRuleArn exampleScope ''Imported''
                  ''arn:aws:iot:us-east-2:123456789012:rule'' ?g) =
             Inl (Error (''Missing topic rule name in ARN: '' @ [CHR 0x27]
                         @ ''arn:aws:iot:us-east-2:123456789012:rule'' @ [CHR 0x27]))"
    using fromTopicRuleArn_None [OF example_split_rule, of "''Imported''" ?g] by simp
  from fromTopicRuleArn_error_atomic [OF h] h show ?thesis by simp
qed

section \<open>Properties of the constructor\<close>

text \<open>
  C3. Every construction registers one resource record, under the id
  \<^verbatim>\<open>Resource\<close> below the new construct. Its payload has the empty list of
  actions, and as \<^verbatim>\<open>awsIotSqlVersion\<close> and \<^verbatim>\<open>sql\<close> the two values that binding
  the filter configuration to the new construct returned.
\<close>

theorem TopicRule_new_payload:
  "resources (snd (TopicRule_new scope id' props g)) =
     resources g @
     [(path scope @ [id', ''Resource''],
       \<lparr>ruleName = props_topicRuleName props,
        topicRulePayload =
          \<lparr>actions = [],
           awsIotSqlVersion =
             cfg_awsIotSqlVersion
               (bind (props_sql props) \<lparr>path = path scope @ [id'], stack = stack scope\<rparr>),
           sql =
             cfg_sql
               (bind (props_sql props) \<lparr>path = path scope @ [id'], stack = stack scope\<rparr>)\<rparr>\<rparr>)]"
  by (simp add: TopicRule_new_eq resources_append)

theorem TopicRule_new_payload_witness:
  "resources (snd (TopicRule_new exampleScope ''MyTopicRule''
                     \<lparr>props_topicRuleName = None, props_sql = exampleSql\<rparr> [])) =
     [([''App'', ''MyTopicRule'', ''Resource''],
       \<lparr>ruleName = None,
        topicRulePayload =
          \<lparr>actions = [], awsIotSqlVersion = ''2016-03-23'',
           sql = ''SELECT temperature FROM sensors''\<rparr>\<rparr>)]"
  using TopicRule_new_payload
          [of exampleScope "''MyTopicRule''"
              "\<lparr>props_topicRuleName = None, props_sql = exampleSql\<rparr>" "[]"]
  by (simp add: exampleScope_def exampleSql_def)

text \<open>
  C5. Constructing with the explicit name \<^verbatim>\<open>MyRule\<close> yields the name
  \<^verbatim>\<open>MyRule\<close> and the ARN composed from the stack's environment, the service
  \<^verbatim>\<open>iot\<close>, the resource \<^verbatim>\<open>rule\<close> and that name: it ends with \<^verbatim>\<open>rule/MyRule\<close>.
\<close>

theorem TopicRule_new_explicit_name:
  "fst (TopicRule_new scope id' \<lparr>props_topicRuleName = Some ''MyRule'', props_sql = s\<rparr> g) =
     Inr \<lparr>topicRuleArn =
            ''arn:'' @ arnPartition (stack scope) @ '':iot:'' @ region (stack scope) @ '':''
              @ account (stack scope) @ '':rule/MyRule'',
          topicRuleName = ''MyRule''\<rparr>
   \<and> suffix ''rule/MyRule''
       (topicRuleArn (projr (fst (TopicRule_new scope id'
          \<lparr>props_topicRuleName = Some ''MyRule'', props_sql = s\<rparr> g))))"
proof -
  have "fst (TopicRule_new scope id' \<lparr>props_topicRuleName = Some ''MyRule'', props_sql = s\<rparr> g) =
     Inr \<lparr>topicRuleArn = formatArn (stack scope)
               \<lparr>service = ''iot'', resource = ''rule'', resourceName = Some ''MyRule''\<rparr>,
          topicRuleName = ''MyRule''\<rparr>"
    by (simp add: TopicRule_new_eq)
  then show ?thesis
    using formatArn_rule_suffix [of "''MyRule''" "stack scope"]
    by (simp add: formatArn_def)
qed

theorem TopicRule_new_explicit_name_witness:
  "fst (TopicRule_new exampleScope ''MyTopicRule''
          \<lparr>props_topicRuleName = Some ''MyRule'', props_sql = exampleSql\<rparr> []) =
     Inr \<lparr>topicRuleArn = ''arn:aws:iot:us-east-2:123456789012:rule/MyRule'',
          topicRuleName = ''MyRule''\<rparr>"
  using TopicRule_new_explicit_name [of exampleScope "''MyTopicRule''" exampleSql "[]"]
  by (simp add: exampleScope_def exampleStack_def)

text \<open>
  C8, as stated, fails in the kind of error it names: the one error that the file
  raises is of the class \<^verbatim>\<open>Error\<close>, not \<^verbatim>\<open>ValidationError\<close>.
\<close>

theorem thrown_error_is_not_ValidationError:
  "fst (fromTopicRuleArn_fw (modelFramework :: unit Framework) exampleScope ''Imported''
          ''arn:aws:iot:us-east-2:123456789012:rule/'' []) =
     Inl (Thrown (Error (''Missing topic rule name in ARN: '' @ [CHR 0x27]
                         @ ''arn:aws:iot:us-east-2:123456789012:rule/'' @ [CHR 0x27])))
   \<and> errorName (Error (''Missing topic rule name in ARN: '' @ [CHR 0x27]
                         @ ''arn:aws:iot:us-east-2:123456789012:rule/'' @ [CHR 0x27]))
        \<noteq> ''ValidationError''"
  using fromTopicRuleArn_empty [OF example_split_rule_slash, of "''Imported''" "[]"]
  by (simp add: fromTopicRuleArn_fw_model)

text \<open>
  C8, amended. Whatever the framework calls do, the constructor raises no error of
  its own: a construction that fails has failed inside a framework call. The only
  error that the import raises itself is the one of class \<^verbatim>\<open>Error\<close> with the
  message \<^verbatim>\<open>Missing topic rule name in ARN: '<identifier>'\<close>; any other failure of
  the import comes from a framework call.
\<close>

theorem only_error_is_missing_name:
  "(\<forall>e. fst (TopicRule_new_fw fw scope id' props g) \<noteq> Inl (Thrown e))
   \<and> (fst (fromTopicRuleArn_fw fw2 scope2 id2 arn g2) = Inl (Thrown e2) \<longrightarrow>
        e2 = Error (''Missing topic rule name in ARN: '' @ [CHR 0x27] @ arn @ [CHR 0x27])
        \<and> errorName e2 = ''Error'')"
proof (intro conjI allI impI)
  fix e
  show "fst (TopicRule_new_fw fw scope id' props g) \<noteq> Inl (Thrown e)"
    by (simp add: TopicRule_new_fw_def split: prod.splits sum.splits)
next
  assume t: "fst (fromTopicRuleArn_fw fw2 scope2 id2 arn g2) = Inl (Thrown e2)"
  then show e: "e2 = Error (''Missing topic rule name in ARN: '' @ [CHR 0x27] @ arn @ [CHR 0x27])"
    by (auto simp: fromTopicRuleArn_fw_def Let_def
        split: prod.splits sum.splits option.splits if_splits)
  then show "errorName e2 = ''Error''"
    by simp
qed

theorem only_error_is_missing_name_witness:
  "(\<forall>e. fst (TopicRule_new_fw
              (modelFramework
                 \<lparr>fw_Resource_new :=
                    (\<lambda>scope id' props g. (Inl ''There is already a Construct with this name'', g))\<rparr>)
              exampleScope ''MyTopicRule''
              \<lparr>props_topicRuleName = Some ''MyRule'', props_sql = exampleSql\<rparr> [])
          \<noteq> Inl (Thrown e))
   \<and> fst (TopicRule_new_fw
            (modelFramework
               \<lparr>fw_Resource_new :=
                  (\<lambda>scope id' props g. (Inl ''There is already a Construct with this name'', g))\<rparr>)
            exampleScope ''MyTopicRule''
            \<lparr>props_topicRuleName = Some ''MyRule'', props_sql = exampleSql\<rparr> []) =
       Inl (Propagated ''There is already a Construct with this name'')
   \<and> fst (fromTopicRuleArn_fw (modelFramework :: string Framework) exampleScope ''Imported''
            ''arn:aws:iot:us-east-2:123456789012:rule'' []) =
       Inl (Thrown (Error (''Missing topic rule name in ARN: '' @ [CHR 0x27]
                           @ ''arn:aws:iot:us-east-2:123456789012:rule'' @ [CHR 0x27])))
   \<and> errorName (Error (''Missing topic rule name in ARN: '' @ [CHR 0x27]
                           @ ''arn:aws:iot:us-east-2:123456789012:rule'' @ [CHR 0x27])) = ''Error''"
proof -
  have h: "fst (fromTopicRuleArn_fw (modelFramework :: string Framework) exampleScope ''Imported''
                  ''arn:aws:iot:us-east-2:123456789012:rule'' []) =
             Inl (Thrown (Error (''Missing topic rule name in ARN: '' @ [CHR 0x27]
                                 @ ''arn:aws:iot:us-east-2:123456789012:rule'' @ [CHR 0x27])))"
    using fromTopicRuleArn_None [OF example_split_rule, of "''Imported''" "[]"]
    by (simp add: fromTopicRuleArn_fw_model)
  have p: "fst (TopicRule_new_fw
            (modelFramework
               \<lparr>fw_Resource_new :=
                  (\<lambda>scope id' props g. (Inl ''There is already a Construct with this name'', g))\<rparr>)
            exampleScope ''MyTopicRule''
            \<lparr>props_topicRuleName = Some ''MyRule'', props_sql = exampleSql\<rparr> []) =
       Inl (Propagated ''There is already a Construct with this name'')"
    by (simp add: TopicRule_new_fw_def)
  from only_error_is_missing_name
         [of "modelFramework
               \<lparr>fw_Resource_new :=
                  (\<lambda>scope id' props g. (Inl ''There is already a Construct with this name'', g))\<rparr>"
             exampleScope "''MyTopicRule''"
             "\<lparr>props_topicRuleName = Some ''MyRule'', props_sql = exampleSql\<rparr>" "[]"
             modelFramework exampleScope "''Imported''"
             "''arn:aws:iot:us-east-2:123456789012:rule''" "[]"
             "Error (''Missing topic rule name in ARN: '' @ [CHR 0x27]
                     @ ''arn:aws:iot:us-east-2:123456789012:rule'' @ [CHR 0x27])"]
       h p
  show ?thesis by simp
qed

section \<open>The invariant of a rule identity\<close>




end
